theory Spec2Isabelle
  imports Complex_Main "HOL-Library.Multiset"
begin

section \<open>JavaScript values used by the advisor\<close>

text \<open>
  The course advisor (class \<open>CourseAdvisorSystem\<close>) is modelled function by function.
  Strings are lists of 8-bit characters (the texts are taken to be Latin-1), numbers that
  the code only ever obtains from digit strings are exact integers, credit values are exact
  rationals (rounding of IEEE doubles is not modelled), and the two non-finite doubles the
  code can produce, \<open>NaN\<close> and \<open>Infinity\<close>, are constructors of their own.
\<close>

datatype jsnum = Num int | NaN | PosInfinity

text \<open>JavaScript truthiness of a number: \<open>0\<close> and \<open>NaN\<close> are falsy.\<close>

fun truthy :: "jsnum \<Rightarrow> bool" where
  "truthy (Num n) = (n \<noteq> 0)"
| "truthy NaN = False"
| "truthy PosInfinity = True"

definition isDigit :: "char \<Rightarrow> bool" where
  "isDigit c = (let n = (of_char c :: nat) in 48 \<le> n \<and> n \<le> 57)"

definition isUpperAZ :: "char \<Rightarrow> bool" where
  "isUpperAZ c = (let n = (of_char c :: nat) in 65 \<le> n \<and> n \<le> 90)"

definition isLowerAZ :: "char \<Rightarrow> bool" where
  "isLowerAZ c = (let n = (of_char c :: nat) in 97 \<le> n \<and> n \<le> 122)"

text \<open>
  White space as \<open>\s\<close> and \<open>trim\<close> see it, among the 8-bit characters: tab, line feed,
  vertical tab, form feed, carriage return, space and the no-break space.
\<close>

definition isSpace :: "char \<Rightarrow> bool" where
  "isSpace c = (of_char c \<in> {9, 10, 11, 12, 13, 32, 160 :: nat})"

text \<open>\<open>String.prototype.startsWith\<close> and \<open>String.prototype.includes\<close>.\<close>

fun startsWith :: "string \<Rightarrow> string \<Rightarrow> bool" where
  "startsWith s [] = True"
| "startsWith [] (p # ps) = False"
| "startsWith (c # cs) (p # ps) = (c = p \<and> startsWith cs ps)"

fun str_includes :: "string \<Rightarrow> string \<Rightarrow> bool" where
  "str_includes [] sub = (sub = [])"
| "str_includes (c # cs) sub = (startsWith (c # cs) sub \<or> str_includes cs sub)"

section \<open>The grade evaluator\<close>

text \<open>
  \<^verbatim>\<open>
  isPassingGrade(grade) {
    const failingGrades = ["F", "F*", "FF", "FD", "W"];
    const retakeIndicators = ["(rst)"];
    if (failingGrades.includes(grade)) return false;
    if (retakeIndicators.some((indicator) => grade.includes(indicator)))
      return false;
    return true;
  }
  \<close>
\<close>

definition failingGrades :: "string list" where
  "failingGrades = [''F'', ''F*'', ''FF'', ''FD'', ''W'']"

definition retakeIndicators :: "string list" where
  "retakeIndicators = [''(rst)'']"

definition isPassingGrade :: "string \<Rightarrow> bool" where
  "isPassingGrade grade =
     (if List.member failingGrades grade then False
      else if list_ex (\<lambda>indicator. str_includes grade indicator) retakeIndicators then False
      else True)"

section \<open>Curriculum courses\<close>

text \<open>
  A curriculum course. The numeric fields have type \<open>'n\<close>: the curriculum extractor stores
  what \<open>parseInt\<close> returned (a \<open>jsnum\<close>), the recommendation engine works on integer
  semesters. The prerequisite list is optional because \<open>arePrerequisitesMet\<close> tests for a
  missing one.
\<close>

record 'n course =
  semester :: 'n
  code :: string
  title :: string
  category :: string
  lecture :: 'n
  tutorial :: 'n
  lab :: 'n
  totalCredit :: 'n
  prerequisites :: "string list option"
  ects :: 'n

text \<open>
  Reading a property of \<open>undefined\<close> throws a \<open>TypeError\<close>: the engine does so when a
  curriculum entry without a prerequisite list reaches \<open>c.prerequisites.includes\<close>, the
  extractor would on a capture that took no part in the match.
\<close>

datatype error = TypeError

section \<open>Regular expressions of the curriculum extractor\<close>

text \<open>
  The extractor's patterns use character classes, quantifiers on a single class (greedy or
  lazy), the anchor \<open>^\<close>, sequence, alternation, one optional non-capturing group and
  capturing groups. A pattern is a value of \<open>regex\<close>; the flag \<open>i\<close> is passed beside it.
\<close>

datatype cls = Digit | Space | Dot | Range char char | Lit char

datatype regex =
    Eps
  | Chr cls
  | Rep cls nat "nat option" bool
  | Bol
  | Seq regex regex
  | Alt regex regex
  | Opt regex
  | Grp nat regex

definition toUpperAZ :: "char \<Rightarrow> char" where
  "toUpperAZ c = (if isLowerAZ c then char_of (of_char c - (32 :: nat)) else c)"

definition toLowerAZ :: "char \<Rightarrow> char" where
  "toLowerAZ c = (if isUpperAZ c then char_of (of_char c + (32 :: nat)) else c)"

text \<open>
  \<open>\d\<close>, \<open>\s\<close>, the dot (any character but a line terminator), a range and a literal.
\<close>

fun classHas :: "cls \<Rightarrow> char \<Rightarrow> bool" where
  "classHas Digit c = isDigit c"
| "classHas Space c = isSpace c"
| "classHas Dot c = (of_char c \<notin> {10, 13 :: nat})"
| "classHas (Range lo hi) c = ((of_char lo :: nat) \<le> of_char c \<and> (of_char c :: nat) \<le> of_char hi)"
| "classHas (Lit l) c = (c = l)"

text \<open>
  With the flag \<open>i\<close> a character also matches when its other-case form does. The patterns
  name ASCII letters only, for which the case folding of the regular expression engine is
  the ASCII one.
\<close>

definition charMatches :: "bool \<Rightarrow> cls \<Rightarrow> char \<Rightarrow> bool" where
  "charMatches ignoreCase cl c =
     (classHas cl c \<or> (ignoreCase \<and> (classHas cl (toUpperAZ c) \<or> classHas cl (toLowerAZ c))))"

text \<open>
  A matcher state: the index in the line, the rest of the line, and the captures so far.
  \<open>matchAll\<close> returns every way in which the pattern matches at that state, in the order in
  which a backtracking matcher tries them; the head of the list is the match it reports.
\<close>

type_synonym captures = "nat \<rightharpoonup> string"

type_synonym mstate = "nat \<times> string \<times> captures"

fun matchAll :: "bool \<Rightarrow> regex \<Rightarrow> mstate \<Rightarrow> mstate list" where
  "matchAll ic Eps st = [st]"
| "matchAll ic (Chr cl) (i, s, caps) =
     (case s of
        [] \<Rightarrow> []
      | c # cs \<Rightarrow> if charMatches ic cl c then [(Suc i, cs, caps)] else [])"
| "matchAll ic (Rep cl lo hi greedy) (i, s, caps) =
     (let run = length (takeWhile (charMatches ic cl) s);
          most = (case hi of None \<Rightarrow> run | Some h \<Rightarrow> min h run);
          counts = (if greedy then rev [lo ..< Suc most] else [lo ..< Suc most])
      in map (\<lambda>k. (i + k, drop k s, caps)) counts)"
| "matchAll ic Bol (i, s, caps) = (if i = 0 then [(i, s, caps)] else [])"
| "matchAll ic (Seq r1 r2) st = concat (map (matchAll ic r2) (matchAll ic r1 st))"
| "matchAll ic (Alt r1 r2) st = matchAll ic r1 st @ matchAll ic r2 st"
| "matchAll ic (Opt r) st = matchAll ic r st @ [st]"
| "matchAll ic (Grp n r) (i, s, caps) =
     map (\<lambda>(j, s', caps'). (j, s', caps'(n \<mapsto> take (j - i) s))) (matchAll ic r (i, s, caps))"

text \<open>
  \<open>String.prototype.match\<close> without the flag \<open>g\<close>: the leftmost start at which the pattern
  matches, and there the first match; the result is the captures, or \<open>None\<close> for \<open>null\<close>.
\<close>

fun searchFrom :: "bool \<Rightarrow> regex \<Rightarrow> nat \<Rightarrow> string \<Rightarrow> captures option" where
  "searchFrom ic r i [] =
     (case matchAll ic r (i, [], Map.empty) of
        [] \<Rightarrow> None
      | st # _ \<Rightarrow> Some (snd (snd st)))"
| "searchFrom ic r i (c # cs) =
     (case matchAll ic r (i, c # cs, Map.empty) of
        [] \<Rightarrow> searchFrom ic r (Suc i) cs
      | st # _ \<Rightarrow> Some (snd (snd st)))"

definition regexMatch :: "bool \<times> regex \<Rightarrow> string \<Rightarrow> captures option" where
  "regexMatch pattern line = searchFrom (fst pattern) (snd pattern) 0 line"

definition lit :: "string \<Rightarrow> regex" where
  "lit s = foldr (\<lambda>c r. Seq (Chr (Lit c)) r) s Eps"

definition seqs :: "regex list \<Rightarrow> regex" where
  "seqs rs = foldr Seq rs Eps"

fun alts :: "regex list \<Rightarrow> regex" where
  "alts [] = Eps"
| "alts [r] = r"
| "alts (r # rs) = Alt r (alts rs)"

definition digits1 :: regex where
  "digits1 = Rep Digit 1 None True"

definition spaces1 :: regex where
  "spaces1 = Rep Space 1 None True"

text \<open>
  \<^verbatim>\<open>
  const semesterPatterns = [
    /^(\d+)\s+/, // "1 "
    /semester\s+(\d+)/i, // "Semester 1"
    /^(\d+)st|nd|rd|th\s+semester/i, // "1st Semester"
    /^year\s+(\d+)/i, // "Year 1"
  ];
  \<close>
  In the third pattern the alternation binds weakest: its branches are \<open>^(\d+)st\<close>,
  \<open>nd\<close>, \<open>rd\<close> and \<open>th\s+semester\<close>.
\<close>

definition semesterPatterns :: "(bool \<times> regex) list" where
  "semesterPatterns =
     [(False, seqs [Bol, Grp 1 digits1, spaces1]),
      (True, seqs [lit ''semester'', spaces1, Grp 1 digits1]),
      (True, alts [seqs [Bol, Grp 1 digits1, lit ''st''],
                   lit ''nd'',
                   lit ''rd'',
                   seqs [lit ''th'', spaces1, lit ''semester'']]),
      (True, seqs [Bol, lit ''year'', spaces1, Grp 1 digits1])]"

text \<open>
  \<^verbatim>\<open>
  const coursePatterns = [
    /([A-Z]{2,4}\d{3,4})\s+(.+?)\s+(AC|FC|UC|FE|AE|UE|CORE|ELECTIVE)\s+(\d+)\s+(\d+)\s+(\d+)\s+(\d+)(?:\s+(.+?))?\s+(\d+)/i,
    /([A-Z]{2,4}\d{3,4})\s+(.+?)\s+(\d+)\s+(\d+)\s+(AC|FC|UC|FE|AE|UE|CORE|ELECTIVE)/i,
    /([A-Z]{2,4}\d{3,4})\s+(.+?)\s+(\d+)/,
  ];
  \<close>
\<close>

definition codeToken :: regex where
  "codeToken = Seq (Rep (Range CHR ''A'' CHR ''Z'') 2 (Some 4) True) (Rep Digit 3 (Some 4) True)"

definition lazyText :: regex where
  "lazyText = Rep Dot 1 None False"

definition categoryToken :: regex where
  "categoryToken =
     alts [lit ''AC'', lit ''FC'', lit ''UC'', lit ''FE'', lit ''AE'', lit ''UE'',
           lit ''CORE'', lit ''ELECTIVE'']"

definition coursePatterns :: "(bool \<times> regex) list" where
  "coursePatterns =
     [(True, seqs [Grp 1 codeToken, spaces1, Grp 2 lazyText, spaces1, Grp 3 categoryToken,
                   spaces1, Grp 4 digits1, spaces1, Grp 5 digits1, spaces1, Grp 6 digits1,
                   spaces1, Grp 7 digits1, Opt (Seq spaces1 (Grp 8 lazyText)),
                   spaces1, Grp 9 digits1]),
      (True, seqs [Grp 1 codeToken, spaces1, Grp 2 lazyText, spaces1, Grp 3 digits1,
                   spaces1, Grp 4 digits1, spaces1, Grp 5 categoryToken]),
      (False, seqs [Grp 1 codeToken, spaces1, Grp 2 lazyText, spaces1, Grp 3 digits1])]"

section \<open>The curriculum extractor\<close>

definition trim :: "string \<Rightarrow> string" where
  "trim s = rev (dropWhile isSpace (rev (dropWhile isSpace s)))"

fun splitOn :: "char \<Rightarrow> string \<Rightarrow> string list" where
  "splitOn d [] = [[]]"
| "splitOn d (c # cs) =
     (if c = d then [] # splitOn d cs
      else (case splitOn d cs of [] \<Rightarrow> [[c]] | w # ws \<Rightarrow> (c # w) # ws))"

definition isHexDigit :: "char \<Rightarrow> bool" where
  "isHexDigit c =
     (let n = (of_char c :: nat)
      in isDigit c \<or> (65 \<le> n \<and> n \<le> 70) \<or> (97 \<le> n \<and> n \<le> 102))"

definition digitVal :: "char \<Rightarrow> nat" where
  "digitVal c =
     (let n = (of_char c :: nat)
      in if isDigit c then n - 48 else if 97 \<le> n then n - 87 else n - 55)"

definition numberOf :: "nat \<Rightarrow> string \<Rightarrow> nat" where
  "numberOf radix ds = foldl (\<lambda>acc c. acc * radix + digitVal c) 0 ds"

text \<open>
  \<open>parseInt(x)\<close> with no radix, on a capture that may be \<open>undefined\<close>: leading white space
  and a sign are skipped, a prefix \<open>0x\<close> selects radix 16, and the longest run of digits is
  read; with no digit the result is \<open>NaN\<close> (so it is for \<open>undefined\<close>).
\<close>

definition parseInt :: "string option \<Rightarrow> jsnum" where
  "parseInt input =
     (case input of
        None \<Rightarrow> NaN
      | Some str \<Rightarrow>
          (let s = dropWhile isSpace str;
               negative = startsWith s ''-'';
               s = (if startsWith s ''-'' \<or> startsWith s ''+'' then tl s else s);
               hex = (startsWith s ''0x'' \<or> startsWith s ''0X'');
               s = (if hex then drop 2 s else s);
               ds = takeWhile (if hex then isHexDigit else isDigit) s
           in if ds = [] then NaN
              else Num ((if negative then - 1 else 1) *
                        int (numberOf (if hex then 16 else 10) ds))))"

text \<open>
  \<^verbatim>\<open>
  for (const pattern of semesterPatterns) {
    const match = trimmedLine.match(pattern);
    if (match) {
      currentSemester = parseInt(match[1]);
      break;
    }
  }
  \<close>
  \<open>currentSemester\<close> starts as \<open>null\<close>, which is \<open>None\<close> here.
\<close>

fun detectSemester :: "(bool \<times> regex) list \<Rightarrow> string \<Rightarrow> jsnum option \<Rightarrow> jsnum option" where
  "detectSemester [] trimmedLine currentSemester = currentSemester"
| "detectSemester (pattern # patterns) trimmedLine currentSemester =
     (case regexMatch pattern trimmedLine of
        Some m \<Rightarrow> Some (parseInt (m 1))
      | None \<Rightarrow> detectSemester patterns trimmedLine currentSemester)"

text \<open>
  A capture that took part in the match is a string; calling \<open>trim\<close> on one that did not
  throws a \<open>TypeError\<close>.
\<close>

definition group :: "captures \<Rightarrow> nat \<Rightarrow> error + string" where
  "group m k = (case m k of None \<Rightarrow> Inl TypeError | Some s \<Rightarrow> Inr s)"

text \<open>
  The three object literals of \<open>parseCurriculum\<close>, chosen by the index of the pattern that
  matched (\<open>pattern === coursePatterns[0]\<close>, \<open>pattern === coursePatterns[1]\<close>, otherwise).
  \<^verbatim>\<open>
  prerequisites: prerequisites
    ? prerequisites.split(",").map((p) => p.trim()).filter((p) => p && p !== "-")
    : [],
  \<close>
\<close>

definition buildCourse :: "nat \<Rightarrow> jsnum \<Rightarrow> captures \<Rightarrow> error + jsnum course" where
  "buildCourse k currentSemester m =
     (if k = 0 then
        (case (group m 1, group m 2, group m 3) of
           (Inr cd, Inr ttl, Inr cat) \<Rightarrow>
             Inr \<lparr>semester = currentSemester, code = trim cd, title = trim ttl,
                  category = trim cat,
                  lecture = parseInt (m 4), tutorial = parseInt (m 5), lab = parseInt (m 6),
                  totalCredit = parseInt (m 7),
                  prerequisites =
                    Some (case m 8 of
                            None \<Rightarrow> []
                          | Some ps \<Rightarrow>
                              if ps = [] then []
                              else filter (\<lambda>p. p \<noteq> [] \<and> p \<noteq> ''-'')
                                     (map trim (splitOn CHR '','' ps))),
                  ects = parseInt (m 9)\<rparr>
         | _ \<Rightarrow> Inl TypeError)
      else if k = 1 then
        (case (group m 1, group m 2, group m 5) of
           (Inr cd, Inr ttl, Inr cat) \<Rightarrow>
             Inr \<lparr>semester = currentSemester, code = trim cd, title = trim ttl,
                  category = trim cat,
                  lecture = Num 0, tutorial = Num 0, lab = Num 0,
                  totalCredit = parseInt (m 3), prerequisites = Some [],
                  ects = parseInt (m 4)\<rparr>
         | _ \<Rightarrow> Inl TypeError)
      else
        (case (group m 1, group m 2) of
           (Inr cd, Inr ttl) \<Rightarrow>
             Inr \<lparr>semester = currentSemester, code = trim cd, title = trim ttl,
                  category = ''UC'',
                  lecture = Num 0, tutorial = Num 0, lab = Num 0,
                  totalCredit = parseInt (m 3), prerequisites = Some [],
                  ects = parseInt (m 3)\<rparr>
         | _ \<Rightarrow> Inl TypeError))"

text \<open>
  \<^verbatim>\<open>
  for (const pattern of coursePatterns) {
    const courseMatch = trimmedLine.match(pattern);
    if (courseMatch && currentSemester) {
      let course;
      ...
      curriculum.push(course);
      break;
    }
  }
  \<close>
  The result is the course to push, if any; \<open>k\<close> is the index of the pattern tried.
\<close>

fun extractCourse ::
  "nat \<Rightarrow> (bool \<times> regex) list \<Rightarrow> string \<Rightarrow> jsnum option \<Rightarrow> error + jsnum course option"
where
  "extractCourse k [] trimmedLine currentSemester = Inr None"
| "extractCourse k (pattern # patterns) trimmedLine currentSemester =
     (case regexMatch pattern trimmedLine of
        None \<Rightarrow> extractCourse (Suc k) patterns trimmedLine currentSemester
      | Some courseMatch \<Rightarrow>
          (case currentSemester of
             None \<Rightarrow> extractCourse (Suc k) patterns trimmedLine currentSemester
           | Some sem \<Rightarrow>
               if truthy sem
               then (case buildCourse k sem courseMatch of
                       Inl e \<Rightarrow> Inl e
                     | Inr course \<Rightarrow> Inr (Some course))
               else extractCourse (Suc k) patterns trimmedLine currentSemester))"

text \<open>The loop over the lines, with \<open>currentSemester\<close> and the curriculum built so far.\<close>

fun parseLines ::
  "string list \<Rightarrow> jsnum option \<Rightarrow> jsnum course list \<Rightarrow> error + jsnum course list"
where
  "parseLines [] currentSemester curriculum = Inr curriculum"
| "parseLines (line # lines) currentSemester curriculum =
     (let trimmedLine = trim line;
          currentSemester = detectSemester semesterPatterns trimmedLine currentSemester
      in case extractCourse 0 coursePatterns trimmedLine currentSemester of
           Inl e \<Rightarrow> Inl e
         | Inr None \<Rightarrow> parseLines lines currentSemester curriculum
         | Inr (Some course) \<Rightarrow> parseLines lines currentSemester (curriculum @ [course]))"

text \<open>
  \<open>parseCurriculum\<close> on the text of the document (\<open>content\<close>, after the text extraction):
  \<open>content.split("\n")\<close>, then the loop.
\<close>

definition parseCurriculum :: "string \<Rightarrow> error + jsnum course list" where
  "parseCurriculum content = parseLines (splitOn (CHR 0x0A) content) None []"

section \<open>The completed and the available courses\<close>

text \<open>
  A completed course has the fields \<open>code\<close>, \<open>title\<close>, \<open>ects\<close> and \<open>semester\<close> too; they
  carry a \<open>c\<close> here, and those of an available course an \<open>a\<close>, to keep them apart from the
  curriculum course's.
\<close>

record completedCourse =
  ccode :: string
  ctitle :: string
  grade :: string
  credits :: rat
  cects :: rat
  gradePoints :: rat
  csemester :: "string option"
  passed :: bool

record availableCourse =
  acode :: string
  atitle :: string

record studentInfo =
  studentNo :: "string option"
  name :: "string option"
  program :: "string option"

text \<open>
  A JavaScript \<open>Map\<close> keeps its entries in insertion order, one per key; \<open>set\<close> on a key
  that is present replaces the value where it stands.
\<close>

type_synonym ('k, 'v) jsmap = "('k \<times> 'v) list"

fun Map_set :: "('k, 'v) jsmap \<Rightarrow> 'k \<Rightarrow> 'v \<Rightarrow> ('k, 'v) jsmap" where
  "Map_set [] k v = [(k, v)]"
| "Map_set ((k', v') # m) k v = (if k' = k then (k, v) # m else (k', v') # Map_set m k v)"

definition Map_new :: "('k \<times> 'v) list \<Rightarrow> ('k, 'v) jsmap" where
  "Map_new es = foldl (\<lambda>m (k, v). Map_set m k v) [] es"

definition Map_get :: "('k, 'v) jsmap \<Rightarrow> 'k \<Rightarrow> 'v option" where
  "Map_get m k = map_of m k"

definition Map_has :: "('k, 'v) jsmap \<Rightarrow> 'k \<Rightarrow> bool" where
  "Map_has m k = (map_of m k \<noteq> None)"

definition Map_values :: "('k, 'v) jsmap \<Rightarrow> 'v list" where
  "Map_values m = map snd m"

definition Map_entries :: "('k, 'v) jsmap \<Rightarrow> ('k \<times> 'v) list" where
  "Map_entries m = m"

record advisor =
  curriculum :: "int course list"
  completedCourses :: "(string, completedCourse) jsmap"
  availableCourses :: "availableCourse list"
  studentInfo :: studentInfo

section \<open>Prerequisites and the semester estimate\<close>

text \<open>
  \<^verbatim>\<open>
  arePrerequisitesMet(course) {
    if (!course.prerequisites || course.prerequisites.length === 0) {
      return true;
    }
    return course.prerequisites.every((prereq) => {
      const completedCourse = this.completedCourses.get(prereq);
      return completedCourse && completedCourse.passed;
    });
  }
  \<close>
\<close>

definition arePrerequisitesMet :: "advisor \<Rightarrow> int course \<Rightarrow> bool" where
  "arePrerequisitesMet this course =
     (case prerequisites course of
        None \<Rightarrow> True
      | Some ps \<Rightarrow>
          if length ps = 0 then True
          else list_all (\<lambda>prereq.
                 case Map_get (completedCourses this) prereq of
                   None \<Rightarrow> False
                 | Some completedCourse \<Rightarrow> passed completedCourse) ps)"

text \<open>
  \<^verbatim>\<open>
  getCurrentSemester() {
    const totalCredits = Array.from(this.completedCourses.values())
      .filter((course) => course.passed)
      .reduce((sum, course) => sum + course.credits, 0);
    const estimatedSemester = Math.floor(totalCredits / 20) + 1;
    return estimatedSemester;
  }
  \<close>
\<close>

definition totalPassedCredits :: "advisor \<Rightarrow> rat" where
  "totalPassedCredits this =
     foldl (\<lambda>sum course. sum + credits course) 0
       (filter (\<lambda>course. passed course) (Map_values (completedCourses this)))"

definition getCurrentSemester :: "advisor \<Rightarrow> int" where
  "getCurrentSemester this = \<lfloor>totalPassedCredits this / 20\<rfloor> + 1"

section \<open>The recommendation engine\<close>

text \<open>
  \<open>this.curriculum.filter((c) => c.prerequisites.includes(course.code))\<close>: the callback
  runs on every entry in order, and throws on the first one without a list.
\<close>

fun filterUnlocks :: "int course list \<Rightarrow> string \<Rightarrow> error + int course list" where
  "filterUnlocks [] cd = Inr []"
| "filterUnlocks (c # cs) cd =
     (case prerequisites c of
        None \<Rightarrow> Inl TypeError
      | Some ps \<Rightarrow>
          (case filterUnlocks cs cd of
             Inl e \<Rightarrow> Inl e
           | Inr unlocks \<Rightarrow> Inr (if List.member ps cd then c # unlocks else unlocks)))"

text \<open>
  \<^verbatim>\<open>
  calculatePriority(course, currentSemester) {
    let priority = 0;
    if (course.category === "AC") priority += 10; // Area Core
    if (course.category === "FC") priority += 8; // Faculty Core
    if (course.category === "UC") priority += 6; // University Core
    if (course.semester === currentSemester) priority += 5;
    if (course.semester === currentSemester + 1) priority += 3;
    if (currentSemester > 8 && course.semester <= 8) {
      priority += 4;
    }
    if (course.semester < currentSemester) {
      priority -= currentSemester > 8 ? 1 : 2;
    }
    const unlocks = this.curriculum.filter((c) =>
      c.prerequisites.includes(course.code)
    ).length;
    priority += unlocks * 2;
    return priority;
  }
  \<close>
\<close>

definition calculatePriority :: "advisor \<Rightarrow> int course \<Rightarrow> int \<Rightarrow> error + int" where
  "calculatePriority this course currentSemester =
     (let priority = 0;
          priority = (if category course = ''AC'' then priority + 10 else priority);
          priority = (if category course = ''FC'' then priority + 8 else priority);
          priority = (if category course = ''UC'' then priority + 6 else priority);
          priority = (if semester course = currentSemester then priority + 5 else priority);
          priority = (if semester course = currentSemester + 1 then priority + 3 else priority);
          priority = (if currentSemester > 8 \<and> semester course \<le> 8
                      then priority + 4 else priority);
          priority = (if semester course < currentSemester
                      then priority - (if currentSemester > 8 then 1 else 2) else priority)
      in case filterUnlocks (curriculum this) (code course) of
           Inl e \<Rightarrow> Inl e
         | Inr unlocks \<Rightarrow> Inr (priority + int (length unlocks) * 2))"

text \<open>Decimal digits of a length, for the template string of the reason.\<close>

fun showNat :: "nat \<Rightarrow> string" where
  "showNat n =
     (if n < 10 then [char_of (48 + n)]
      else showNat (n div 10) @ [char_of (48 + n mod 10)])"

fun join :: "string \<Rightarrow> string list \<Rightarrow> string" where
  "join sep [] = []"
| "join sep [x] = x"
| "join sep (x # y # ys) = x @ sep @ join sep (y # ys)"

text \<open>
  \<^verbatim>\<open>
  getRecommendationReason(course, currentSemester) {
    const reasons = [];
    if (course.semester === currentSemester) {
      reasons.push("Current semester course");
    } else if (course.semester === currentSemester + 1) {
      reasons.push("Next semester course");
    } else if (course.semester < currentSemester) {
      reasons.push("Delayed from previous semester");
    }
    if (course.category === "AC") reasons.push("Area Core requirement");
    if (course.category === "FC") reasons.push("Faculty Core requirement");
    const unlocks = this.curriculum.filter((c) =>
      c.prerequisites.includes(course.code)
    );
    if (unlocks.length > 0) {
      reasons.push(`Prerequisite for ${unlocks.length} other courses`);
    }
    return reasons.join(", ");
  }
  \<close>
\<close>

definition getRecommendationReason :: "advisor \<Rightarrow> int course \<Rightarrow> int \<Rightarrow> error + string" where
  "getRecommendationReason this course currentSemester =
     (let reasons = [];
          reasons = (if semester course = currentSemester
                       then reasons @ [''Current semester course'']
                     else if semester course = currentSemester + 1
                       then reasons @ [''Next semester course'']
                     else if semester course < currentSemester
                       then reasons @ [''Delayed from previous semester'']
                     else reasons);
          reasons = (if category course = ''AC''
                     then reasons @ [''Area Core requirement''] else reasons);
          reasons = (if category course = ''FC''
                     then reasons @ [''Faculty Core requirement''] else reasons)
      in case filterUnlocks (curriculum this) (code course) of
           Inl e \<Rightarrow> Inl e
         | Inr unlocks \<Rightarrow>
             Inr (join '', ''
                   (if length unlocks > 0
                    then reasons @ [''Prerequisite for '' @ showNat (length unlocks) @ '' other courses'']
                    else reasons)))"

text \<open>
  An entry of \<open>nextSemesterCourses\<close> is \<open>{...course, priority, reason}\<close>: the course's
  fields and two more.
\<close>

record recommended = "int course" +
  priority :: int
  reason :: string

record recommendations =
  nextSemesterCourses :: "recommended list"
  availableElectives :: "int course list"
  missedCourses :: "int course list"
  futureRecommendations :: "int course list"

text \<open>\<open>code.replace(/[A-Z]$/, "")\<close>: one trailing upper-case letter is removed.\<close>

definition baseCode :: "string \<Rightarrow> string" where
  "baseCode cd = (if cd \<noteq> [] \<and> isUpperAZ (last cd) then butlast cd else cd)"

text \<open>
  \<^verbatim>\<open>
  for (const [code, course] of this.completedCourses.entries()) {
    if (course.passed) {
      completedCourseCodes.add(code);
      const baseCode = code.replace(/[A-Z]$/, ""); // Remove trailing letter
      completedCourseBaseCodes.add(baseCode);
      completedCourseBaseCodes.add(code);
    }
  }
  \<close>
\<close>

fun collectCompleted ::
  "(string \<times> completedCourse) list \<Rightarrow> string set \<times> string set \<Rightarrow> string set \<times> string set"
where
  "collectCompleted [] sets = sets"
| "collectCompleted ((cd, course) # rest) (completedCourseCodes, completedCourseBaseCodes) =
     (if passed course
      then collectCompleted rest
             (insert cd completedCourseCodes,
              insert cd (insert (baseCode cd) completedCourseBaseCodes))
      else collectCompleted rest (completedCourseCodes, completedCourseBaseCodes))"

text \<open>
  The loop over the curriculum of \<open>getRecommendedCourses\<close>; each \<open>continue\<close> is a recursive
  call with the buckets unchanged, each \<open>push\<close> appends to one bucket.
  \<^verbatim>\<open>
  for (const course of this.curriculum) {
    if (completedCourseCodes.has(course.code) ||
        completedCourseBaseCodes.has(course.code)) { continue; }
    const isAvailable = this.availableCourses.some(
      (avail) => avail.code === course.code);
    if (!isAvailable) { continue; }
    const canTake = this.arePrerequisitesMet(course);
    if (!canTake) { continue; }
    if (course.semester === currentSemester ||
        course.semester === currentSemester + 1 ||
        (currentSemester > 8 && course.semester <= 8 &&
          !completedCourseCodes.has(course.code) &&
          !completedCourseBaseCodes.has(course.code)) ||
        (course.semester <= currentSemester + 2 &&
          course.semester >= currentSemester - 2)) {
      recommendations.nextSemesterCourses.push({
        ...course,
        priority: this.calculatePriority(course, currentSemester),
        reason: this.getRecommendationReason(course, currentSemester),
      });
    } else if (course.category === "AE" || course.category === "FE" ||
               course.category === "UE") {
      recommendations.availableElectives.push(course);
    } else if (course.semester < currentSemester) {
      recommendations.missedCourses.push(course);
    } else {
      recommendations.futureRecommendations.push(course);
    }
  }
  \<close>
\<close>

fun recommendLoop ::
  "advisor \<Rightarrow> int \<Rightarrow> string set \<Rightarrow> string set \<Rightarrow> int course list \<Rightarrow> recommendations
     \<Rightarrow> error + recommendations"
where
  "recommendLoop this currentSemester completedCourseCodes completedCourseBaseCodes []
     recs = Inr recs"
| "recommendLoop this currentSemester completedCourseCodes completedCourseBaseCodes
     (course # rest) recs =
     (if code course \<in> completedCourseCodes \<or> code course \<in> completedCourseBaseCodes
      then recommendLoop this currentSemester completedCourseCodes completedCourseBaseCodes
             rest recs
      else if \<not> list_ex (\<lambda>avail. acode avail = code course) (availableCourses this)
      then recommendLoop this currentSemester completedCourseCodes completedCourseBaseCodes
             rest recs
      else if \<not> arePrerequisitesMet this course
      then recommendLoop this currentSemester completedCourseCodes completedCourseBaseCodes
             rest recs
      else if semester course = currentSemester \<or>
              semester course = currentSemester + 1 \<or>
              (currentSemester > 8 \<and> semester course \<le> 8 \<and>
               code course \<notin> completedCourseCodes \<and>
               code course \<notin> completedCourseBaseCodes) \<or>
              (semester course \<le> currentSemester + 2 \<and>
               semester course \<ge> currentSemester - 2)
      then (case calculatePriority this course currentSemester of
              Inl e \<Rightarrow> Inl e
            | Inr p \<Rightarrow>
                (case getRecommendationReason this course currentSemester of
                   Inl e \<Rightarrow> Inl e
                 | Inr r \<Rightarrow>
                     recommendLoop this currentSemester completedCourseCodes
                       completedCourseBaseCodes rest
                       (recs\<lparr>nextSemesterCourses := nextSemesterCourses recs @
                          [course.extend course (recommended.fields p r)]\<rparr>)))
      else if category course = ''AE'' \<or> category course = ''FE'' \<or> category course = ''UE''
      then recommendLoop this currentSemester completedCourseCodes completedCourseBaseCodes
             rest (recs\<lparr>availableElectives := availableElectives recs @ [course]\<rparr>)
      else if semester course < currentSemester
      then recommendLoop this currentSemester completedCourseCodes completedCourseBaseCodes
             rest (recs\<lparr>missedCourses := missedCourses recs @ [course]\<rparr>)
      else recommendLoop this currentSemester completedCourseCodes completedCourseBaseCodes
             rest (recs\<lparr>futureRecommendations := futureRecommendations recs @ [course]\<rparr>))"

text \<open>
  \<open>nextSemesterCourses.sort((a, b) => b.priority - a.priority)\<close>: \<open>Array.prototype.sort\<close> is
  stable, so with this comparator the result is the stable sort by descending priority.
\<close>

definition sortByPriority :: "recommended list \<Rightarrow> recommended list" where
  "sortByPriority rs = sort_key (\<lambda>r. - priority r) rs"

definition getRecommendedCourses :: "advisor \<Rightarrow> error + recommendations" where
  "getRecommendedCourses this =
     (let currentSemester = getCurrentSemester this;
          recs = \<lparr>nextSemesterCourses = [], availableElectives = [],
                  missedCourses = [], futureRecommendations = []\<rparr>;
          (completedCourseCodes, completedCourseBaseCodes) =
             collectCompleted (Map_entries (completedCourses this)) ({}, {})
      in case recommendLoop this currentSemester completedCourseCodes
                completedCourseBaseCodes (curriculum this) recs of
           Inl e \<Rightarrow> Inl e
         | Inr recs \<Rightarrow>
             Inr (recs\<lparr>nextSemesterCourses := sortByPriority (nextSemesterCourses recs)\<rparr>))"

section \<open>The progress reporter\<close>

record categoryStat =
  required :: nat
  completed :: nat

text \<open>
  \<^verbatim>\<open>
  for (const course of this.curriculum) {
    if (!categoryStats[course.category]) {
      categoryStats[course.category] = { required: 0, completed: 0 };
    }
    categoryStats[course.category].required++;
    if (this.completedCourses.has(course.code) &&
        this.completedCourses.get(course.code).passed) {
      categoryStats[course.category].completed++;
    }
  }
  \<close>
  The object \<open>categoryStats\<close> is a finite map from category names to counters (category
  names are taken not to be names of \<open>Object.prototype\<close>).
\<close>

fun categoryLoop ::
  "advisor \<Rightarrow> int course list \<Rightarrow> (string \<rightharpoonup> categoryStat) \<Rightarrow> (string \<rightharpoonup> categoryStat)"
where
  "categoryLoop this [] categoryStats = categoryStats"
| "categoryLoop this (course # rest) categoryStats =
     (let stat = (case categoryStats (category course) of
                    None \<Rightarrow> \<lparr>required = 0, completed = 0\<rparr>
                  | Some st \<Rightarrow> st);
          stat = stat\<lparr>required := required stat + 1\<rparr>;
          stat = (if Map_has (completedCourses this) (code course) \<and>
                     (case Map_get (completedCourses this) (code course) of
                        None \<Rightarrow> False
                      | Some c \<Rightarrow> passed c)
                  then stat\<lparr>completed := completed stat + 1\<rparr> else stat)
      in categoryLoop this rest (categoryStats(category course \<mapsto> stat)))"

text \<open>
  \<open>Math.round((completedCourses.length / this.curriculum.length) * 100)\<close> on two array
  lengths. Division of doubles does not throw: \<open>0 / 0\<close> is \<open>NaN\<close> and \<open>n / 0\<close> is
  \<open>Infinity\<close> for \<open>n > 0\<close>; multiplying by 100 and \<open>Math.round\<close> leave both as they are.
  \<open>Math.round\<close> rounds to the nearest integer, halves upwards.
\<close>

definition roundedPercentage :: "nat \<Rightarrow> nat \<Rightarrow> jsnum" where
  "roundedPercentage n m =
     (if m = 0 then (if n = 0 then NaN else PosInfinity)
      else Num \<lfloor>(of_nat n / of_nat m :: rat) * 100 + 1 / 2\<rfloor>)"

record progressReport =
  reportStudentInfo :: studentInfo
  currentSemester :: int
  totalECTS :: rat
  totalCredits :: rat
  completedCount :: nat
  totalRequiredCourses :: nat
  categoryStats :: "string \<rightharpoonup> categoryStat"
  completionPercentage :: jsnum

text \<open>
  \<^verbatim>\<open>
  generateProgressReport() {
    const completedCourses = Array.from(this.completedCourses.values()).filter(
      (course) => course.passed);
    const totalECTS = completedCourses.reduce((sum, course) => sum + course.ects, 0);
    const totalCredits = completedCourses.reduce((sum, course) => sum + course.credits, 0);
    const currentSemester = this.getCurrentSemester();
    const categoryStats = {};
    for (const course of this.curriculum) { ... }
    return {
      studentInfo: this.studentInfo,
      currentSemester,
      totalECTS,
      totalCredits,
      completedCourses: completedCourses.length,
      totalRequiredCourses: this.curriculum.length,
      categoryStats,
      completionPercentage: Math.round(
        (completedCourses.length / this.curriculum.length) * 100),
    };
  }
  \<close>
\<close>

definition generateProgressReport :: "advisor \<Rightarrow> progressReport" where
  "generateProgressReport this =
     (let completedPassed = filter (\<lambda>course. passed course) (Map_values (completedCourses this));
          ectsSum = foldl (\<lambda>sum course. sum + cects course) 0 completedPassed;
          creditSum = foldl (\<lambda>sum course. sum + credits course) 0 completedPassed;
          estimate = getCurrentSemester this;
          stats = categoryLoop this (curriculum this) Map.empty
      in \<lparr>reportStudentInfo = studentInfo this,
          currentSemester = estimate,
          totalECTS = ectsSum,
          totalCredits = creditSum,
          completedCount = length completedPassed,
          totalRequiredCourses = length (curriculum this),
          categoryStats = stats,
          completionPercentage =
            roundedPercentage (length completedPassed) (length (curriculum this))\<rparr>)"

section \<open>Loading a saved session and recommending\<close>

text \<open>
  The saved JSON document, after \<open>JSON.parse\<close>; each of its members may be missing.
\<close>

record parsedData =
  savedCurriculum :: "int course list option"
  savedCompletedCourses :: "(string \<times> completedCourse) list option"
  savedAvailableCourses :: "availableCourse list option"
  savedStudentInfo :: "studentInfo option"

text \<open>
  \<^verbatim>\<open>
  async loadParsedData(filePath = null) {
    try {
      const data = await fs.readFile(filePath, "utf8");
      const parsedData = JSON.parse(data);
      this.curriculum = parsedData.curriculum || [];
      this.completedCourses = new Map(parsedData.completedCourses || []);
      this.availableCourses = parsedData.availableCourses || [];
      this.studentInfo = parsedData.studentInfo || {};
      return true;
    } catch (error) {
      return false;
    }
  }
  \<close>
  The file is the argument: \<open>None\<close> when reading or parsing it throws.
\<close>

definition loadParsedData :: "advisor \<Rightarrow> parsedData option \<Rightarrow> bool \<times> advisor" where
  "loadParsedData this file =
     (case file of
        None \<Rightarrow> (False, this)
      | Some parsedData \<Rightarrow>
          (True,
           \<lparr>curriculum = (case savedCurriculum parsedData of None \<Rightarrow> [] | Some c \<Rightarrow> c),
            completedCourses =
              Map_new (case savedCompletedCourses parsedData of None \<Rightarrow> [] | Some es \<Rightarrow> es),
            availableCourses =
              (case savedAvailableCourses parsedData of None \<Rightarrow> [] | Some a \<Rightarrow> a),
            studentInfo = (case savedStudentInfo parsedData of
                      None \<Rightarrow> \<lparr>studentNo = None, name = None, program = None\<rparr>
                    | Some i \<Rightarrow> i)\<rparr>))"

text \<open>
  \<^verbatim>\<open>
  async loadAndRecommend(filePath = null) {
    try {
      const loadSuccess = await this.loadParsedData(filePath);
      if (!loadSuccess) {
        throw new Error("Failed to load parsed data from JSON");
      }
      const recommendations = this.getRecommendedCourses();
      const progressReport = this.generateProgressReport();
      return { success: true, progressReport, recommendations, ... };
    } catch (error) {
      return { success: false, error: error.message };
    }
  }
  \<close>
  The two shapes of the returned object are the two constructors of \<open>response\<close> (the
  copy of the parsed data and the fixed success message are left out). The message of a
  \<open>TypeError\<close> is the JavaScript engine's; a fixed text stands for it.
\<close>

datatype response =
  Failure string
| Success progressReport recommendations

definition errorMessage :: "error \<Rightarrow> string" where
  "errorMessage e =
     (case e of TypeError \<Rightarrow> ''Cannot read properties of undefined'')"

definition loadAndRecommend :: "advisor \<Rightarrow> parsedData option \<Rightarrow> response" where
  "loadAndRecommend this file =
     (case loadParsedData this file of
        (False, _) \<Rightarrow> Failure ''Failed to load parsed data from JSON''
      | (True, loaded) \<Rightarrow>
          (case getRecommendedCourses loaded of
             Inl e \<Rightarrow> Failure (errorMessage e)
           | Inr recommendations \<Rightarrow> Success (generateProgressReport loaded) recommendations))"

section \<open>The bucketing rule as the specification states it\<close>

text \<open>
  A code counts as completed when it is the key of a passed entry of the completed courses,
  or the base code of such a key. A curriculum course is eligible when it is not completed,
  is on offer, and has its prerequisites met; an eligible course belongs to the first of
  the four buckets whose rule it satisfies.
\<close>

definition completedCode :: "advisor \<Rightarrow> string \<Rightarrow> bool" where
  "completedCode this cd =
     (\<exists>(k, c) \<in> set (Map_entries (completedCourses this)).
         passed c \<and> (cd = k \<or> cd = baseCode k))"

definition eligible :: "advisor \<Rightarrow> int course \<Rightarrow> bool" where
  "eligible this course =
     (\<not> completedCode this (code course) \<and>
      (\<exists>avail \<in> set (availableCourses this). acode avail = code course) \<and>
      arePrerequisitesMet this course)"

definition nextSemesterRule :: "advisor \<Rightarrow> int course \<Rightarrow> bool" where
  "nextSemesterRule this course =
     (let estimate = getCurrentSemester this
      in semester course = estimate \<or>
         semester course = estimate + 1 \<or>
         (estimate > 8 \<and> semester course \<le> 8 \<and> \<not> completedCode this (code course)) \<or>
         \<bar>semester course - estimate\<bar> \<le> 2)"

datatype bucket = NextSemester | Electives | Missed | Future

definition bucketOf :: "advisor \<Rightarrow> int course \<Rightarrow> bucket option" where
  "bucketOf this course =
     (if \<not> eligible this course then None
      else if nextSemesterRule this course then Some NextSemester
      else if category course \<in> {''AE'', ''FE'', ''UE''} then Some Electives
      else if semester course < getCurrentSemester this then Some Missed
      else Some Future)"

definition listsAsPrerequisite :: "int course \<Rightarrow> string \<Rightarrow> bool" where
  "listsAsPrerequisite c cd = (case prerequisites c of None \<Rightarrow> False | Some ps \<Rightarrow> cd \<in> set ps)"

text \<open>
  The priority score as the specification states it. The unlock bonus counts the other
  entries of the curriculum (the curriculum without this entry) that list the course's
  code.
\<close>

definition statedPriority :: "advisor \<Rightarrow> int course \<Rightarrow> int" where
  "statedPriority this course =
     (let estimate = getCurrentSemester this
      in (if category course = ''AC'' then 10 else 0) +
         (if category course = ''FC'' then 8 else 0) +
         (if category course = ''UC'' then 6 else 0) +
         (if semester course = estimate then 5 else 0) +
         (if semester course = estimate + 1 then 3 else 0) +
         (if estimate > 8 \<and> semester course \<le> 8 then 4 else 0) -
         (if semester course < estimate then (if estimate > 8 then 1 else 2) else 0) +
         2 * int (length (filter (\<lambda>c. listsAsPrerequisite c (code course))
                            (remove1 course (curriculum this)))))"

section \<open>Closed forms of the engine's loops\<close>

text \<open>
  The functions below restate pieces of the engine without the error plumbing; the lemmas
  of the last sections prove that the engine computes them.
\<close>

definition lacksList :: "advisor \<Rightarrow> bool" where
  "lacksList this = list_ex (\<lambda>c. prerequisites c = None) (curriculum this)"

definition unlockedBy :: "advisor \<Rightarrow> string \<Rightarrow> int course list" where
  "unlockedBy this cd = filter (\<lambda>c. listsAsPrerequisite c cd) (curriculum this)"

definition basePriority :: "int course \<Rightarrow> int \<Rightarrow> int" where
  "basePriority course estimate =
     (if category course = ''AC'' then 10 else 0) +
     (if category course = ''FC'' then 8 else 0) +
     (if category course = ''UC'' then 6 else 0) +
     (if semester course = estimate then 5 else 0) +
     (if semester course = estimate + 1 then 3 else 0) +
     (if estimate > 8 \<and> semester course \<le> 8 then 4 else 0) -
     (if semester course < estimate then (if estimate > 8 then 1 else 2) else 0)"

definition reasonText :: "advisor \<Rightarrow> int course \<Rightarrow> int \<Rightarrow> string" where
  "reasonText this course estimate =
     join '', ''
       ((if semester course = estimate then [''Current semester course'']
         else if semester course = estimate + 1 then [''Next semester course'']
         else if semester course < estimate then [''Delayed from previous semester'']
         else []) @
        (if category course = ''AC'' then [''Area Core requirement''] else []) @
        (if category course = ''FC'' then [''Faculty Core requirement''] else []) @
        (if length (unlockedBy this (code course)) > 0
         then [''Prerequisite for '' @ showNat (length (unlockedBy this (code course))) @
               '' other courses'']
         else []))"

definition annotate :: "advisor \<Rightarrow> int \<Rightarrow> int course \<Rightarrow> recommended" where
  "annotate this estimate c =
     course.extend c
       (recommended.fields
          (basePriority c estimate + 2 * int (length (unlockedBy this (code c))))
          (reasonText this c estimate))"

definition loopBucket ::
  "advisor \<Rightarrow> int \<Rightarrow> string set \<Rightarrow> string set \<Rightarrow> int course \<Rightarrow> bucket option" where
  "loopBucket this estimate A B c =
     (if code c \<in> A \<or> code c \<in> B then None
      else if \<not> list_ex (\<lambda>avail. acode avail = code c) (availableCourses this) then None
      else if \<not> arePrerequisitesMet this c then None
      else if semester c = estimate \<or> semester c = estimate + 1 \<or>
              (estimate > 8 \<and> semester c \<le> 8 \<and> code c \<notin> A \<and> code c \<notin> B) \<or>
              (semester c \<le> estimate + 2 \<and> semester c \<ge> estimate - 2)
      then Some NextSemester
      else if category c = ''AE'' \<or> category c = ''FE'' \<or> category c = ''UE''
      then Some Electives
      else if semester c < estimate then Some Missed
      else Some Future)"

section \<open>Invariants of the curriculum extractor\<close>










section \<open>Sessions used as examples\<close>

text \<open>
  The sample session of the workflow test (\<open>test-json-workflow.js\<close>): three curriculum
  courses, two of them completed, and three courses on offer.
\<close>

definition sampleCS101 :: "int course" where
  "sampleCS101 =
     \<lparr>semester = 1, code = ''CS101'', title = ''Introduction to Computer Science'',
      category = ''AC'', lecture = 3, tutorial = 1, lab = 2, totalCredit = 6,
      prerequisites = Some [], ects = 6\<rparr>"

definition sampleMATH101 :: "int course" where
  "sampleMATH101 =
     \<lparr>semester = 1, code = ''MATH101'', title = ''Calculus I'',
      category = ''UC'', lecture = 3, tutorial = 1, lab = 0, totalCredit = 4,
      prerequisites = Some [], ects = 4\<rparr>"

definition sampleCS102 :: "int course" where
  "sampleCS102 =
     \<lparr>semester = 2, code = ''CS102'', title = ''Data Structures'',
      category = ''AC'', lecture = 3, tutorial = 1, lab = 2, totalCredit = 6,
      prerequisites = Some [''CS101''], ects = 6\<rparr>"

definition sampleCurriculum :: "int course list" where
  "sampleCurriculum = [sampleCS101, sampleMATH101, sampleCS102]"

definition sampleCompletedCourses :: "(string, completedCourse) jsmap" where
  "sampleCompletedCourses =
     Map_new
       [(''CS101'',
         \<lparr>ccode = ''CS101'', ctitle = ''Introduction to Computer Science'', grade = ''A'',
          credits = 6, cects = 6, gradePoints = 4, csemester = None, passed = True\<rparr>),
        (''MATH101'',
         \<lparr>ccode = ''MATH101'', ctitle = ''Calculus I'', grade = ''B+'',
          credits = 4, cects = 4, gradePoints = 33 / 10, csemester = None, passed = True\<rparr>)]"

definition sampleAvailableCourses :: "availableCourse list" where
  "sampleAvailableCourses =
     [\<lparr>acode = ''CS102'', atitle = ''Data Structures''\<rparr>,
      \<lparr>acode = ''CS201'', atitle = ''Algorithms''\<rparr>,
      \<lparr>acode = ''MATH102'', atitle = ''Calculus II''\<rparr>]"

definition sampleStudentInfo :: studentInfo where
  "sampleStudentInfo =
     \<lparr>studentNo = Some ''12345'', name = Some ''John Doe'',
      program = Some ''Computer Science''\<rparr>"

definition sampleAdvisor :: advisor where
  "sampleAdvisor =
     \<lparr>curriculum = sampleCurriculum, completedCourses = sampleCompletedCourses,
      availableCourses = sampleAvailableCourses, studentInfo = sampleStudentInfo\<rparr>"

definition sampleRecommendations :: recommendations where
  "sampleRecommendations =
     \<lparr>nextSemesterCourses =
        [course.extend sampleCS102
           (recommended.fields 13 ''Next semester course, Area Core requirement'')],
      availableElectives = [], missedCourses = [], futureRecommendations = []\<rparr>"

text \<open>
  A second session, made to reach every branch of the engine: 60 passed credits put the
  estimate at semester 4.
\<close>

definition demoCourse :: "int \<Rightarrow> string \<Rightarrow> string \<Rightarrow> string list \<Rightarrow> int course" where
  "demoCourse sem cd cat ps =
     \<lparr>semester = sem, code = cd, title = ''T'', category = cat, lecture = 3, tutorial = 0,
      lab = 0, totalCredit = 3, prerequisites = Some ps, ects = 5\<rparr>"

definition demoCurriculum :: "int course list" where
  "demoCurriculum =
     [demoCourse 4 ''ELEC401'' ''AE'' [],
      demoCourse 4 ''ELEC401'' ''AC'' [],
      demoCourse 7 ''HIST701'' ''UE'' [],
      demoCourse 1 ''MATH101'' ''UC'' [],
      demoCourse 8 ''CAPS801'' ''AC'' [],
      demoCourse 1 ''PHYS121'' ''UC'' [],
      demoCourse 4 ''NOPE301'' ''AC'' [],
      demoCourse 4 ''ADVA402'' ''FC'' [''ELEC401'']]"

definition demoCompleted :: "string \<Rightarrow> string \<Rightarrow> rat \<Rightarrow> completedCourse" where
  "demoCompleted cd g cr =
     \<lparr>ccode = cd, ctitle = [], grade = g, credits = cr, cects = cr, gradePoints = 0,
      csemester = None, passed = isPassingGrade g\<rparr>"

definition demoAdvisor :: advisor where
  "demoAdvisor =
     \<lparr>curriculum = demoCurriculum,
      completedCourses =
        Map_new [(''GENS100'', demoCompleted ''GENS100'' ''A'' 60),
                 (''PHYS121F'', demoCompleted ''PHYS121F'' ''P'' 0),
                 (''CHEM110'', demoCompleted ''CHEM110'' ''FF'' 20)],
      availableCourses =
        map (\<lambda>cd. \<lparr>acode = cd, atitle = cd\<rparr>)
          [''ELEC401'', ''HIST701'', ''MATH101'', ''CAPS801'', ''PHYS121'', ''ADVA402''],
      studentInfo = \<lparr>studentNo = None, name = None, program = None\<rparr>\<rparr>"

definition demoRecommendations :: recommendations where
  "demoRecommendations =
     \<lparr>nextSemesterCourses =
        [course.extend (demoCourse 4 ''ELEC401'' ''AC'' [])
           (recommended.fields 17
              ''Current semester course, Area Core requirement, Prerequisite for 1 other courses''),
         course.extend (demoCourse 4 ''ELEC401'' ''AE'' [])
           (recommended.fields 7
              ''Current semester course, Prerequisite for 1 other courses'')],
      availableElectives = [demoCourse 7 ''HIST701'' ''UE'' []],
      missedCourses = [demoCourse 1 ''MATH101'' ''UC'' []],
      futureRecommendations = [demoCourse 8 ''CAPS801'' ''AC'' []]\<rparr>"

text \<open>The advisor as its constructor leaves it, and a saved document with no member.\<close>

definition newAdvisor :: advisor where
  "newAdvisor =
     \<lparr>curriculum = [], completedCourses = Map_new [], availableCourses = [],
      studentInfo = \<lparr>studentNo = None, name = None, program = None\<rparr>\<rparr>"

definition emptySaved :: parsedData where
  "emptySaved =
     \<lparr>savedCurriculum = None, savedCompletedCourses = None, savedAvailableCourses = None,
      savedStudentInfo = None\<rparr>"



section \<open>Properties of the grade evaluator\<close>

lemma startsWith_iff: "startsWith s p \<longleftrightarrow> (\<exists>v. s = p @ v)"
  by (induction s p rule: startsWith.induct) auto

lemma str_includes_iff: "str_includes s sub \<longleftrightarrow> (\<exists>u v. s = u @ sub @ v)"
proof (induction s)
  case Nil
  then show ?case by auto
next
  case (Cons c cs)
  show ?case
  proof
    assume "str_includes (c # cs) sub"
    then consider "startsWith (c # cs) sub" | "str_includes cs sub" by auto
    then show "\<exists>u v. c # cs = u @ sub @ v"
    proof cases
      case 1
      then obtain v where "c # cs = sub @ v" by (auto simp: startsWith_iff)
      then have "c # cs = [] @ sub @ v" by simp
      then show ?thesis by blast
    next
      case 2
      then obtain u v where "cs = u @ sub @ v" using Cons.IH by blast
      then have "c # cs = (c # u) @ sub @ v" by simp
      then show ?thesis by blast
    qed
  next
    assume "\<exists>u v. c # cs = u @ sub @ v"
    then obtain u v where uv: "c # cs = u @ sub @ v" by blast
    show "str_includes (c # cs) sub"
    proof (cases u)
      case Nil
      with uv have "startsWith (c # cs) sub" by (auto simp: startsWith_iff)
      then show ?thesis by simp
    next
      case (Cons a u')
      with uv have "cs = u' @ sub @ v" by simp
      then have "str_includes cs sub" using Cons.IH by blast
      then show ?thesis by simp
    qed
  qed
qed

text \<open>
  Claim C4. \<open>isPassingGrade\<close> is a total function on strings that returns false exactly on
  the five failing tokens \<open>F\<close>, \<open>F*\<close>, \<open>FF\<close>, \<open>FD\<close>, \<open>W\<close> and on every string that contains
  the retake marker \<open>(rst)\<close>; on every other string, known grade or not, it returns true.
\<close>

theorem isPassingGrade_closed_world:
  "isPassingGrade g =
     (\<not> (g \<in> {''F'', ''F*'', ''FF'', ''FD'', ''W''} \<or> (\<exists>u v. g = u @ ''(rst)'' @ v)))"
proof -
  have "str_includes g ''(rst)'' \<longleftrightarrow> (\<exists>u v. g = u @ ''(rst)'' @ v)"
    by (rule str_includes_iff)
  then show ?thesis
    unfolding isPassingGrade_def failingGrades_def retakeIndicators_def
    by auto
qed

section \<open>Properties of prerequisites and of the semester estimate\<close>

text \<open>
  Claim C5. \<open>arePrerequisitesMet\<close> holds exactly when every listed prerequisite code has an
  entry in the completed courses that is marked passed; so it holds when the list is empty
  or absent, and fails as soon as one listed code has no entry.
\<close>

theorem arePrerequisitesMet_iff:
  "(arePrerequisitesMet this course \<longleftrightarrow>
      (\<forall>p \<in> set (case prerequisites course of None \<Rightarrow> [] | Some ps \<Rightarrow> ps).
          \<exists>c. Map_get (completedCourses this) p = Some c \<and> passed c)) \<and>
   (prerequisites course = None \<or> prerequisites course = Some []
      \<longrightarrow> arePrerequisitesMet this course) \<and>
   (\<forall>ps p. prerequisites course = Some ps \<and> p \<in> set ps \<and>
           Map_get (completedCourses this) p = None
      \<longrightarrow> \<not> arePrerequisitesMet this course)"
proof (intro conjI)
  show "arePrerequisitesMet this course \<longleftrightarrow>
      (\<forall>p \<in> set (case prerequisites course of None \<Rightarrow> [] | Some ps \<Rightarrow> ps).
          \<exists>c. Map_get (completedCourses this) p = Some c \<and> passed c)"
    unfolding arePrerequisitesMet_def
    by (auto simp: list_all_iff split: option.splits)
  show "prerequisites course = None \<or> prerequisites course = Some []
      \<longrightarrow> arePrerequisitesMet this course"
    unfolding arePrerequisitesMet_def by auto
  show "\<forall>ps p. prerequisites course = Some ps \<and> p \<in> set ps \<and>
           Map_get (completedCourses this) p = None
      \<longrightarrow> \<not> arePrerequisitesMet this course"
  proof (intro allI impI)
    fix ps p
    assume h: "prerequisites course = Some ps \<and> p \<in> set ps \<and>
           Map_get (completedCourses this) p = None"
    then have "ps \<noteq> []" by auto
    moreover have "\<not> list_all (\<lambda>prereq.
                 case Map_get (completedCourses this) prereq of
                   None \<Rightarrow> False
                 | Some completedCourse \<Rightarrow> passed completedCourse) ps"
      using h by (auto simp: list_all_iff intro!: bexI[of _ p])
    ultimately show "\<not> arePrerequisitesMet this course"
      unfolding arePrerequisitesMet_def using h by simp
  qed
qed




section \<open>The engine computes the closed forms\<close>

lemma collectCompleted_eq:
  "collectCompleted m (A, B) =
     (A \<union> {k. \<exists>c. (k, c) \<in> set m \<and> passed c},
      B \<union> {k. \<exists>c. (k, c) \<in> set m \<and> passed c} \<union> {baseCode k |k. \<exists>c. (k, c) \<in> set m \<and> passed c})"
  by (induction m "(A, B)" arbitrary: A B rule: collectCompleted.induct) auto

lemma collectCompleted_completedCode:
  "collectCompleted (Map_entries (completedCourses this)) ({}, {}) = (A, B) \<Longrightarrow>
     (cd \<in> A \<or> cd \<in> B) = completedCode this cd"
  unfolding collectCompleted_eq completedCode_def by auto

lemma filterUnlocks_eq:
  "filterUnlocks cs cd =
     (if list_ex (\<lambda>c. prerequisites c = None) cs then Inl TypeError
      else Inr (filter (\<lambda>c. listsAsPrerequisite c cd) cs))"
  by (induction cs) (auto simp: listsAsPrerequisite_def split: option.splits sum.splits)

lemma filterUnlocks_this:
  "filterUnlocks (curriculum this) cd =
     (if lacksList this then Inl TypeError else Inr (unlockedBy this cd))"
  by (simp add: filterUnlocks_eq lacksList_def unlockedBy_def)

lemma truncate_extend: "course.truncate (course.extend c (recommended.fields p r)) = c"
  by (simp add: course.truncate_def course.extend_def)

lemma priority_extend: "priority (course.extend c (recommended.fields p r)) = p"
  by (simp add: course.extend_def recommended.fields_def)

lemma calculatePriority_eq:
  "calculatePriority this course estimate =
     (if lacksList this then Inl TypeError
      else Inr (basePriority course estimate + 2 * int (length (unlockedBy this (code course)))))"
  unfolding calculatePriority_def filterUnlocks_this basePriority_def
  by (auto simp: Let_def)

lemma getRecommendationReason_eq:
  "getRecommendationReason this course estimate =
     (if lacksList this then Inl TypeError else Inr (reasonText this course estimate))"
  unfolding getRecommendationReason_def filterUnlocks_this reasonText_def
  by (simp add: Let_def)

lemma recommendLoop_Cons:
  "recommendLoop this estimate A B (c # cs) recs =
     (case loopBucket this estimate A B c of
        None \<Rightarrow> recommendLoop this estimate A B cs recs
      | Some NextSemester \<Rightarrow>
          (if lacksList this then Inl TypeError
           else recommendLoop this estimate A B cs
                  (recs\<lparr>nextSemesterCourses := nextSemesterCourses recs @
                            [annotate this estimate c]\<rparr>))
      | Some Electives \<Rightarrow>
          recommendLoop this estimate A B cs
            (recs\<lparr>availableElectives := availableElectives recs @ [c]\<rparr>)
      | Some Missed \<Rightarrow>
          recommendLoop this estimate A B cs
            (recs\<lparr>missedCourses := missedCourses recs @ [c]\<rparr>)
      | Some Future \<Rightarrow>
          recommendLoop this estimate A B cs
            (recs\<lparr>futureRecommendations := futureRecommendations recs @ [c]\<rparr>))"
  by (simp add: loopBucket_def calculatePriority_eq getRecommendationReason_eq annotate_def)

lemma recommendLoop_none:
  "loopBucket this estimate A B c = None \<Longrightarrow>
     recommendLoop this estimate A B (c # cs) recs = recommendLoop this estimate A B cs recs"
  by (simp only: recommendLoop_Cons option.case)

lemma recommendLoop_next:
  "loopBucket this estimate A B c = Some NextSemester \<Longrightarrow>
     recommendLoop this estimate A B (c # cs) recs =
       (if lacksList this then Inl TypeError
        else recommendLoop this estimate A B cs
               (recs\<lparr>nextSemesterCourses := nextSemesterCourses recs @
                         [annotate this estimate c]\<rparr>))"
  by (simp only: recommendLoop_Cons option.case bucket.case)

lemma recommendLoop_electives:
  "loopBucket this estimate A B c = Some Electives \<Longrightarrow>
     recommendLoop this estimate A B (c # cs) recs =
       recommendLoop this estimate A B cs
         (recs\<lparr>availableElectives := availableElectives recs @ [c]\<rparr>)"
  by (simp only: recommendLoop_Cons option.case bucket.case)

lemma recommendLoop_missed:
  "loopBucket this estimate A B c = Some Missed \<Longrightarrow>
     recommendLoop this estimate A B (c # cs) recs =
       recommendLoop this estimate A B cs
         (recs\<lparr>missedCourses := missedCourses recs @ [c]\<rparr>)"
  by (simp only: recommendLoop_Cons option.case bucket.case)

lemma recommendLoop_future:
  "loopBucket this estimate A B c = Some Future \<Longrightarrow>
     recommendLoop this estimate A B (c # cs) recs =
       recommendLoop this estimate A B cs
         (recs\<lparr>futureRecommendations := futureRecommendations recs @ [c]\<rparr>)"
  by (simp only: recommendLoop_Cons option.case bucket.case)

lemma recommendLoop_eq:
  "recommendLoop this estimate A B cs recs =
     (if lacksList this \<and> list_ex (\<lambda>c. loopBucket this estimate A B c = Some NextSemester) cs
      then Inl TypeError
      else Inr (recs\<lparr>
        nextSemesterCourses := nextSemesterCourses recs @
          map (annotate this estimate)
            (filter (\<lambda>c. loopBucket this estimate A B c = Some NextSemester) cs),
        availableElectives := availableElectives recs @
          filter (\<lambda>c. loopBucket this estimate A B c = Some Electives) cs,
        missedCourses := missedCourses recs @
          filter (\<lambda>c. loopBucket this estimate A B c = Some Missed) cs,
        futureRecommendations := futureRecommendations recs @
          filter (\<lambda>c. loopBucket this estimate A B c = Some Future) cs\<rparr>))"
proof (induction cs arbitrary: recs)
  case Nil
  show ?case by simp
next
  case (Cons c cs)
  consider (none) "loopBucket this estimate A B c = None"
    | (nxt) "loopBucket this estimate A B c = Some NextSemester"
    | (el) "loopBucket this estimate A B c = Some Electives"
    | (mi) "loopBucket this estimate A B c = Some Missed"
    | (fu) "loopBucket this estimate A B c = Some Future"
    by (cases "loopBucket this estimate A B c") (auto intro: bucket.exhaust)
  then show ?case
  proof cases
    case none
    show ?thesis
      unfolding recommendLoop_none[OF none] Cons.IH using none by simp
  next
    case nxt
    show ?thesis
      unfolding recommendLoop_next[OF nxt] Cons.IH using nxt by simp
  next
    case el
    show ?thesis
      unfolding recommendLoop_electives[OF el] Cons.IH using el by simp
  next
    case mi
    show ?thesis
      unfolding recommendLoop_missed[OF mi] Cons.IH using mi by simp
  next
    case fu
    show ?thesis
      unfolding recommendLoop_future[OF fu] Cons.IH using fu by simp
  qed
qed

lemma loopBucket_bucketOf:
  assumes "collectCompleted (Map_entries (completedCourses this)) ({}, {}) = (A, B)"
  shows "loopBucket this (getCurrentSemester this) A B c = bucketOf this c"
proof -
  have cc: "\<And>cd. (cd \<in> A \<or> cd \<in> B) = completedCode this cd"
    using collectCompleted_completedCode[OF assms] by simp
  have el: "eligible this c \<longleftrightarrow>
      \<not> (code c \<in> A \<or> code c \<in> B) \<and>
      list_ex (\<lambda>avail. acode avail = code c) (availableCourses this) \<and>
      arePrerequisitesMet this c"
    unfolding eligible_def cc by (simp add: list_ex_iff)
  have nx: "nextSemesterRule this c \<longleftrightarrow>
      (semester c = getCurrentSemester this \<or> semester c = getCurrentSemester this + 1 \<or>
       (getCurrentSemester this > 8 \<and> semester c \<le> 8 \<and> \<not> (code c \<in> A \<or> code c \<in> B)) \<or>
       (semester c \<le> getCurrentSemester this + 2 \<and> semester c \<ge> getCurrentSemester this - 2))"
    unfolding nextSemesterRule_def cc Let_def by (simp add: abs_le_iff) linarith
  show ?thesis
    unfolding loopBucket_def bucketOf_def el nx by auto
qed

lemma getRecommendedCourses_eq:
  "getRecommendedCourses this =
     (if lacksList this \<and>
         list_ex (\<lambda>c. bucketOf this c = Some NextSemester) (curriculum this)
      then Inl TypeError
      else Inr \<lparr>nextSemesterCourses =
                  sortByPriority (map (annotate this (getCurrentSemester this))
                    (filter (\<lambda>c. bucketOf this c = Some NextSemester) (curriculum this))),
                availableElectives =
                  filter (\<lambda>c. bucketOf this c = Some Electives) (curriculum this),
                missedCourses =
                  filter (\<lambda>c. bucketOf this c = Some Missed) (curriculum this),
                futureRecommendations =
                  filter (\<lambda>c. bucketOf this c = Some Future) (curriculum this)\<rparr>)"
proof -
  obtain A B where ab: "collectCompleted (Map_entries (completedCourses this)) ({}, {}) = (A, B)"
    by (cases "collectCompleted (Map_entries (completedCourses this)) ({}, {})") auto
  have lb: "loopBucket this (getCurrentSemester this) A B = bucketOf this"
    using loopBucket_bucketOf[OF ab] by auto
  show ?thesis
    unfolding getRecommendedCourses_def Let_def ab
    by (simp add: recommendLoop_eq lb)
qed

section \<open>Properties of the buckets\<close>

lemma bucketOf_eligible: "bucketOf this c = Some b \<Longrightarrow> eligible this c"
  by (auto simp: bucketOf_def split: if_splits)

lemma eligible_not_own_prerequisite:
  assumes "eligible this c"
  shows "\<not> listsAsPrerequisite c (code c)"
proof
  assume l: "listsAsPrerequisite c (code c)"
  then obtain ps where ps: "prerequisites c = Some ps" "code c \<in> set ps"
    by (auto simp: listsAsPrerequisite_def split: option.splits)
  from assms have met: "arePrerequisitesMet this c" and nc: "\<not> completedCode this (code c)"
    by (auto simp: eligible_def)
  from met ps obtain cc where cc: "Map_get (completedCourses this) (code c) = Some cc" "passed cc"
    by (auto simp: arePrerequisitesMet_def list_all_iff split: option.splits if_splits)
  then have "(code c, cc) \<in> set (Map_entries (completedCourses this))"
    by (auto simp: Map_get_def Map_entries_def dest: map_of_SomeD)
  with cc have "completedCode this (code c)"
    unfolding completedCode_def by blast
  with nc show False by simp
qed

lemma statedPriority_eq:
  assumes "eligible this c"
  shows "statedPriority this c =
     basePriority c (getCurrentSemester this) + 2 * int (length (unlockedBy this (code c)))"
proof -
  have "filter (\<lambda>x. listsAsPrerequisite x (code c)) (remove1 c (curriculum this)) =
        remove1 c (filter (\<lambda>x. listsAsPrerequisite x (code c)) (curriculum this))"
    by (rule filter_remove1)
  also have "\<dots> = filter (\<lambda>x. listsAsPrerequisite x (code c)) (curriculum this)"
    using eligible_not_own_prerequisite[OF assms] by (simp add: remove1_idem)
  finally show ?thesis
    unfolding statedPriority_def basePriority_def unlockedBy_def Let_def by simp
qed

lemma priority_annotate:
  "priority (annotate this e c) = basePriority c e + 2 * int (length (unlockedBy this (code c)))"
  by (simp add: annotate_def priority_extend)

lemma truncate_annotate: "course.truncate (annotate this e c) = c"
  by (simp add: annotate_def truncate_extend)

lemma fields_annotate:
  "code (annotate this e c) = code c"
  "semester (annotate this e c) = semester c"
  "category (annotate this e c) = category c"
  by (simp_all add: annotate_def course.extend_def)


lemma getRecommendedCourses_Inr:
  "getRecommendedCourses this = Inr recs \<Longrightarrow>
     recs = \<lparr>nextSemesterCourses =
                  sortByPriority (map (annotate this (getCurrentSemester this))
                    (filter (\<lambda>c. bucketOf this c = Some NextSemester) (curriculum this))),
                availableElectives =
                  filter (\<lambda>c. bucketOf this c = Some Electives) (curriculum this),
                missedCourses =
                  filter (\<lambda>c. bucketOf this c = Some Missed) (curriculum this),
                futureRecommendations =
                  filter (\<lambda>c. bucketOf this c = Some Future) (curriculum this)\<rparr>"
  by (auto simp: getRecommendedCourses_eq split: if_splits)

lemma map_truncate_annotate: "map course.truncate (map (annotate this e) cs) = cs"
  by (induction cs) (simp_all add: truncate_annotate)


section \<open>Properties of the priority order and of completion\<close>

lemma sorted_desc_nth:
  assumes "sorted (map (\<lambda>r. - priority r) rs)" "i \<le> j" "j < length rs"
  shows "priority (rs ! j) \<le> priority (rs ! i)"
proof -
  have "map (\<lambda>r. - priority r) rs ! i \<le> map (\<lambda>r. - priority r) rs ! j"
    using assms by (intro sorted_nth_mono) auto
  then show ?thesis using assms by simp
qed

lemma basePriority_core_before_elective:
  assumes "category a = ''AC''" "category b \<in> {''AE'', ''FE'', ''UE''}"
    "semester a = semester b"
  shows "basePriority a e = basePriority b e + 10"
  using assms unfolding basePriority_def by auto

text \<open>
  Claim C2. Every entry of \<open>nextSemester\<close> carries the stated priority score; the bucket is
  sorted by descending priority, entries of equal priority stand in curriculum order, and
  of two entries with the same code and semester the Area Core one stands before the
  elective one.
\<close>

theorem nextSemester_priority_order:
  assumes "getRecommendedCourses this = Inr recs"
  shows "(\<forall>r \<in> set (nextSemesterCourses recs).
            priority r = statedPriority this (course.truncate r)) \<and>
         sorted_wrt (\<lambda>a b. priority a \<ge> priority b) (nextSemesterCourses recs) \<and>
         (\<forall>p. map course.truncate (filter (\<lambda>r. priority r = p) (nextSemesterCourses recs)) =
               filter (\<lambda>c. bucketOf this c = Some NextSemester \<and> statedPriority this c = p)
                 (curriculum this)) \<and>
         (\<forall>i j. i < length (nextSemesterCourses recs) \<and> j < length (nextSemesterCourses recs) \<and>
                category (nextSemesterCourses recs ! i) = ''AC'' \<and>
                category (nextSemesterCourses recs ! j) \<in> {''AE'', ''FE'', ''UE''} \<and>
                code (nextSemesterCourses recs ! i) = code (nextSemesterCourses recs ! j) \<and>
                semester (nextSemesterCourses recs ! i) = semester (nextSemesterCourses recs ! j)
              \<longrightarrow> i < j)"
proof -
  define e where "e = getCurrentSemester this"
  define cand where "cand = filter (\<lambda>c. bucketOf this c = Some NextSemester) (curriculum this)"
  define ns where "ns = nextSemesterCourses recs"
  have ns: "ns = sort_key (\<lambda>r. - priority r) (map (annotate this e) cand)"
    using getRecommendedCourses_Inr[OF assms]
    by (simp add: ns_def cand_def e_def sortByPriority_def)
  have cand_el: "eligible this c" if "c \<in> set cand" for c
    using that by (auto simp: cand_def intro: bucketOf_eligible)
  have prio: "priority (annotate this e c) = statedPriority this c" if "c \<in> set cand" for c
    using statedPriority_eq[OF cand_el[OF that]] by (simp add: priority_annotate e_def)
  have mem: "\<exists>c \<in> set cand. r = annotate this e c" if "r \<in> set ns" for r
    using that unfolding ns by auto
  have p1: "\<forall>r \<in> set ns. priority r = statedPriority this (course.truncate r)"
  proof
    fix r assume "r \<in> set ns"
    then obtain c where "c \<in> set cand" "r = annotate this e c" using mem by blast
    then show "priority r = statedPriority this (course.truncate r)"
      by (simp add: prio truncate_annotate)
  qed
  have srt: "sorted (map (\<lambda>r. - priority r) ns)"
    unfolding ns by (rule sorted_sort_key)
  have p2: "sorted_wrt (\<lambda>a b. priority a \<ge> priority b) ns"
    using srt by (simp add: sorted_map sorted_wrt_iff_nth_less)
  have p3: "map course.truncate (filter (\<lambda>r. priority r = p) ns) =
        filter (\<lambda>c. bucketOf this c = Some NextSemester \<and> statedPriority this c = p)
          (curriculum this)" for p
  proof -
    have "filter (\<lambda>r. priority r = p) ns = filter (\<lambda>r. - priority r = - p) ns"
      by simp
    also have "\<dots> = filter (\<lambda>r. - priority r = - p) (map (annotate this e) cand)"
      unfolding ns by (rule sort_key_stable)
    also have "\<dots> = map (annotate this e) (filter (\<lambda>c. priority (annotate this e c) = p) cand)"
      by (simp add: filter_map comp_def)
    also have "filter (\<lambda>c. priority (annotate this e c) = p) cand =
               filter (\<lambda>c. statedPriority this c = p) cand"
      by (rule filter_cong) (auto simp: prio)
    finally have "map course.truncate (filter (\<lambda>r. priority r = p) ns) =
        filter (\<lambda>c. statedPriority this c = p) cand"
      by (simp only: map_truncate_annotate)
    then show ?thesis
      by (simp add: cand_def conj_commute)
  qed
  have p4: "i < j" if h: "i < length ns" "j < length ns"
      "category (ns ! i) = ''AC''" "category (ns ! j) \<in> {''AE'', ''FE'', ''UE''}"
      "code (ns ! i) = code (ns ! j)" "semester (ns ! i) = semester (ns ! j)" for i j
  proof (rule ccontr)
    assume "\<not> i < j"
    then have "j \<le> i" by simp
    then have le: "priority (ns ! i) \<le> priority (ns ! j)"
      using sorted_desc_nth[OF srt _ h(1)] by simp
    obtain a where a: "a \<in> set cand" "ns ! i = annotate this e a"
      using mem[of "ns ! i"] h(1) by auto
    obtain b where b: "b \<in> set cand" "ns ! j = annotate this e b"
      using mem[of "ns ! j"] h(2) by auto
    have "basePriority a e = basePriority b e + 10"
      using h(3-6) unfolding a b fields_annotate
      by (intro basePriority_core_before_elective) auto
    moreover have "code a = code b" using h(5) unfolding a b fields_annotate .
    ultimately have "priority (ns ! i) = priority (ns ! j) + 10"
      unfolding a b priority_annotate by simp
    with le show False by simp
  qed
  show ?thesis
    using p1 p2 p3 p4 unfolding ns_def by blast
qed

lemma baseCode_snoc: "baseCode (s @ [ch]) = (if isUpperAZ ch then s else s @ [ch])"
  by (simp add: baseCode_def)

text \<open>
  Claim C7. For a passed completed course, neither its code nor its base code (the code
  without one trailing upper-case letter) is the code of a course in any of the four
  buckets.
\<close>

theorem completed_codes_excluded:
  assumes "getRecommendedCourses this = Inr recs"
    and "(k, c) \<in> set (Map_entries (completedCourses this))"
    and "passed c"
  shows "(\<forall>x \<in> set (map course.truncate (nextSemesterCourses recs)) \<union>
                set (availableElectives recs) \<union> set (missedCourses recs) \<union>
                set (futureRecommendations recs).
            code x \<noteq> k \<and> code x \<noteq> baseCode k) \<and>
         (\<forall>s ch. baseCode (s @ [ch]) = (if isUpperAZ ch then s else s @ [ch]))"
proof -
  have cmpl: "completedCode this k" "completedCode this (baseCode k)"
    using assms(2,3) unfolding completedCode_def by blast+
  have nb: "bucketOf this x = None" if "code x = k \<or> code x = baseCode k" for x
    using that cmpl by (auto simp: bucketOf_def eligible_def)
  have r: "recs = \<lparr>nextSemesterCourses =
                  sortByPriority (map (annotate this (getCurrentSemester this))
                    (filter (\<lambda>c. bucketOf this c = Some NextSemester) (curriculum this))),
                availableElectives =
                  filter (\<lambda>c. bucketOf this c = Some Electives) (curriculum this),
                missedCourses =
                  filter (\<lambda>c. bucketOf this c = Some Missed) (curriculum this),
                futureRecommendations =
                  filter (\<lambda>c. bucketOf this c = Some Future) (curriculum this)\<rparr>"
    by (rule getRecommendedCourses_Inr[OF assms(1)])
  have n: "set (map course.truncate (nextSemesterCourses recs)) =
           set (filter (\<lambda>c. bucketOf this c = Some NextSemester) (curriculum this))"
    unfolding r by (simp add: sortByPriority_def image_image truncate_annotate)
  have "code x \<noteq> k \<and> code x \<noteq> baseCode k"
    if "x \<in> set (map course.truncate (nextSemesterCourses recs)) \<union>
                set (availableElectives recs) \<union> set (missedCourses recs) \<union>
                set (futureRecommendations recs)" for x
  proof -
    have "bucketOf this x \<noteq> None"
      using that unfolding n unfolding r by auto
    then show ?thesis using nb[of x] by auto
  qed
  then show ?thesis using baseCode_snoc by blast
qed

section \<open>The theorems on the example sessions\<close>

lemma demo_recs: "getRecommendedCourses demoAdvisor = Inr demoRecommendations"
  by code_simp

theorem arePrerequisitesMet_iff_witness:
  "prerequisites sampleCS101 = Some [] \<and> arePrerequisitesMet sampleAdvisor sampleCS101 \<and>
   prerequisites sampleCS102 = Some [''CS101''] \<and> arePrerequisitesMet sampleAdvisor sampleCS102 \<and>
   Map_get (completedCourses sampleAdvisor) ''CS201'' = None \<and>
   \<not> arePrerequisitesMet sampleAdvisor (sampleCS102\<lparr>prerequisites := Some [''CS201'']\<rparr>)"
proof -
  have a: "prerequisites sampleCS101 = Some []"
    by (simp add: sampleCS101_def)
  have b: "prerequisites sampleCS102 = Some [''CS101'']"
    by (simp add: sampleCS102_def)
  have c: "Map_get (completedCourses sampleAdvisor) ''CS201'' = None"
    by code_simp
  have d: "Map_get (completedCourses sampleAdvisor) ''CS101'' =
             Some \<lparr>ccode = ''CS101'', ctitle = ''Introduction to Computer Science'',
                   grade = ''A'', credits = 6, cects = 6, gradePoints = 4, csemester = None,
                   passed = True\<rparr>"
    by code_simp
  have "arePrerequisitesMet sampleAdvisor sampleCS101"
    using arePrerequisitesMet_iff[of sampleAdvisor sampleCS101] a by blast
  moreover have "arePrerequisitesMet sampleAdvisor sampleCS102"
    using arePrerequisitesMet_iff[of sampleAdvisor sampleCS102] b d by simp
  moreover have "\<not> arePrerequisitesMet sampleAdvisor (sampleCS102\<lparr>prerequisites := Some [''CS201'']\<rparr>)"
    using arePrerequisitesMet_iff[of sampleAdvisor "sampleCS102\<lparr>prerequisites := Some [''CS201'']\<rparr>"] c
    by simp
  ultimately show ?thesis using a b c by simp
qed



theorem nextSemester_priority_order_witness:
  "getRecommendedCourses demoAdvisor = Inr demoRecommendations \<and>
   map priority (nextSemesterCourses demoRecommendations) = [17, 7] \<and>
   map (\<lambda>r. statedPriority demoAdvisor (course.truncate r))
     (nextSemesterCourses demoRecommendations) = [17, 7] \<and>
   map category (nextSemesterCourses demoRecommendations) = [''AC'', ''AE''] \<and>
   map category (filter (\<lambda>c. bucketOf demoAdvisor c = Some NextSemester) (curriculum demoAdvisor))
     = [''AE'', ''AC''] \<and>
   sorted_wrt (\<lambda>a b. priority a \<ge> priority b) (nextSemesterCourses demoRecommendations)"
proof -
  note e = demo_recs
  have a: "map priority (nextSemesterCourses demoRecommendations) = [17, 7]"
    by code_simp
  have b: "map category (nextSemesterCourses demoRecommendations) = [''AC'', ''AE'']"
    by code_simp
  have c: "map category (filter (\<lambda>c. bucketOf demoAdvisor c = Some NextSemester)
             (curriculum demoAdvisor)) = [''AE'', ''AC'']"
    by code_simp
  note t = nextSemester_priority_order[OF e]
  have d: "map (\<lambda>r. statedPriority demoAdvisor (course.truncate r))
             (nextSemesterCourses demoRecommendations) =
           map priority (nextSemesterCourses demoRecommendations)"
    using t by (intro map_cong) auto
  show ?thesis
    using e a b c d t by simp
qed

theorem completed_codes_excluded_witness:
  "getRecommendedCourses demoAdvisor = Inr demoRecommendations \<and>
   (''PHYS121F'', demoCompleted ''PHYS121F'' ''P'' 0) \<in>
      set (Map_entries (completedCourses demoAdvisor)) \<and>
   passed (demoCompleted ''PHYS121F'' ''P'' 0) \<and>
   baseCode ''PHYS121F'' = ''PHYS121'' \<and>
   demoCourse 1 ''PHYS121'' ''UC'' [] \<in> set (curriculum demoAdvisor) \<and>
   demoCourse 1 ''PHYS121'' ''UC'' [] \<notin>
     set (map course.truncate (nextSemesterCourses demoRecommendations)) \<union>
     set (availableElectives demoRecommendations) \<union> set (missedCourses demoRecommendations) \<union>
     set (futureRecommendations demoRecommendations)"
proof -
  note e = demo_recs
  have a: "(''PHYS121F'', demoCompleted ''PHYS121F'' ''P'' 0) \<in>
      set (Map_entries (completedCourses demoAdvisor))"
    by code_simp
  have b: "passed (demoCompleted ''PHYS121F'' ''P'' 0)"
    by code_simp
  have c: "baseCode ''PHYS121F'' = ''PHYS121''"
    by code_simp
  have d: "demoCourse 1 ''PHYS121'' ''UC'' [] \<in> set (curriculum demoAdvisor)"
    by code_simp
  have f: "code (demoCourse 1 ''PHYS121'' ''UC'' []) = ''PHYS121''"
    by (simp add: demoCourse_def)
  have g: "\<forall>x \<in> set (map course.truncate (nextSemesterCourses demoRecommendations)) \<union>
     set (availableElectives demoRecommendations) \<union> set (missedCourses demoRecommendations) \<union>
     set (futureRecommendations demoRecommendations).
       code x \<noteq> ''PHYS121F'' \<and> code x \<noteq> baseCode ''PHYS121F''"
    using completed_codes_excluded[OF e a b] by (rule conjunct1)
  have "demoCourse 1 ''PHYS121'' ''UC'' [] \<notin>
     set (map course.truncate (nextSemesterCourses demoRecommendations)) \<union>
     set (availableElectives demoRecommendations) \<union> set (missedCourses demoRecommendations) \<union>
     set (futureRecommendations demoRecommendations)"
  proof
    assume "demoCourse 1 ''PHYS121'' ''UC'' [] \<in>
     set (map course.truncate (nextSemesterCourses demoRecommendations)) \<union>
     set (availableElectives demoRecommendations) \<union> set (missedCourses demoRecommendations) \<union>
     set (futureRecommendations demoRecommendations)"
    from bspec[OF g this] have "code (demoCourse 1 ''PHYS121'' ''UC'' []) \<noteq> baseCode ''PHYS121F''"
      by (rule conjunct2)
    with c f show False by simp
  qed
  then show ?thesis using e a b c d by simp
qed

section \<open>The progress report and the loader on an empty curriculum\<close>

text \<open>
  Claim C3. With an empty curriculum the completion percentage is the quotient of a length
  by zero: it is \<open>NaN\<close> when no completed course is passed and \<open>Infinity\<close> otherwise, and
  in no case the number 0.
\<close>

theorem completionPercentage_empty_curriculum:
  "completionPercentage (generateProgressReport (this\<lparr>curriculum := []\<rparr>)) =
     (if filter (\<lambda>course. passed course) (Map_values (completedCourses this)) = []
      then NaN else PosInfinity) \<and>
   completionPercentage (generateProgressReport newAdvisor) = NaN"
proof
  show "completionPercentage (generateProgressReport (this\<lparr>curriculum := []\<rparr>)) =
     (if filter (\<lambda>course. passed course) (Map_values (completedCourses this)) = []
      then NaN else PosInfinity)"
    by (simp add: generateProgressReport_def roundedPercentage_def Let_def)
  show "completionPercentage (generateProgressReport newAdvisor) = NaN"
    by (simp add: generateProgressReport_def roundedPercentage_def Let_def newAdvisor_def
          Map_new_def Map_values_def)
qed

text \<open>
  Claim C8. On the ordinal marker line \<open>2nd Semester\<close> the third semester pattern matches
  through its branch \<open>nd\<close>, which has no capture: \<open>currentSemester\<close> becomes \<open>NaN\<close>, not 2,
  and the course lines that follow are dropped. Of the ordinal markers only those in \<open>st\<close>
  set the integer.
\<close>

theorem ordinal_marker_not_parsed:
  "detectSemester semesterPatterns ''2nd Semester'' None = Some NaN \<and>
   detectSemester semesterPatterns ''2nd Semester'' (Some (Num 1)) = Some NaN \<and>
   detectSemester semesterPatterns ''3rd Semester'' None = Some NaN \<and>
   detectSemester semesterPatterns ''1st Semester'' None = Some (Num 1) \<and>
   parseCurriculum (''2nd Semester'' @ [CHR 0x0A] @ ''CS103 X 3'') = Inr []"
  by code_simp

text \<open>
  Claim C9, as stated, fails: loading a saved document without a curriculum and recommending
  succeeds, with four empty buckets and a report over zero courses.
\<close>

theorem loadAndRecommend_empty_counterexample:
  "loadAndRecommend newAdvisor (Some emptySaved) =
     Success
       \<lparr>reportStudentInfo = \<lparr>studentNo = None, name = None, program = None\<rparr>,
        currentSemester = 1, totalECTS = 0, totalCredits = 0, completedCount = 0,
        totalRequiredCourses = 0, categoryStats = Map.empty, completionPercentage = NaN\<rparr>
       \<lparr>nextSemesterCourses = [], availableElectives = [], missedCourses = [],
        futureRecommendations = []\<rparr>"
  by (simp add: loadAndRecommend_def loadParsedData_def emptySaved_def newAdvisor_def
        getRecommendedCourses_eq generateProgressReport_def roundedPercentage_def
        getCurrentSemester_def totalPassedCredits_def Map_new_def Map_values_def lacksList_def
        sortByPriority_def Let_def)

text \<open>
  Claim C9, amended. When the saved document has no curriculum, or an empty one,
  \<open>loadAndRecommend\<close> succeeds: it returns four empty buckets and a progress report that
  counts zero required courses. It reports a failure to its caller when the saved document
  cannot be read or parsed.
\<close>

theorem loadAndRecommend_empty_curriculum:
  "(savedCurriculum saved = None \<or> savedCurriculum saved = Some [] \<longrightarrow>
      (\<exists>report. loadAndRecommend this (Some saved) =
           Success report
             \<lparr>nextSemesterCourses = [], availableElectives = [], missedCourses = [],
              futureRecommendations = []\<rparr> \<and>
           totalRequiredCourses report = 0)) \<and>
   loadAndRecommend this None = Failure ''Failed to load parsed data from JSON''"
proof (intro conjI impI)
  assume a: "savedCurriculum saved = None \<or> savedCurriculum saved = Some []"
  obtain loaded where l: "loadParsedData this (Some saved) = (True, loaded)"
    and c: "curriculum loaded = []"
    using a by (auto simp: loadParsedData_def)
  have "getRecommendedCourses loaded =
          Inr \<lparr>nextSemesterCourses = [], availableElectives = [], missedCourses = [],
               futureRecommendations = []\<rparr>"
    by (simp add: getRecommendedCourses_eq c lacksList_def sortByPriority_def)
  moreover have "totalRequiredCourses (generateProgressReport loaded) = 0"
    by (simp add: generateProgressReport_def Let_def c)
  ultimately show "\<exists>report. loadAndRecommend this (Some saved) =
           Success report
             \<lparr>nextSemesterCourses = [], availableElectives = [], missedCourses = [],
              futureRecommendations = []\<rparr> \<and>
           totalRequiredCourses report = 0"
    by (simp add: loadAndRecommend_def l)
next
  show "loadAndRecommend this None = Failure ''Failed to load parsed data from JSON''"
    by (simp add: loadAndRecommend_def loadParsedData_def)
qed

theorem loadAndRecommend_empty_curriculum_witness:
  "savedCurriculum emptySaved = None \<and>
   (case loadAndRecommend newAdvisor (Some emptySaved) of
      Failure msg \<Rightarrow> False
    | Success report recs \<Rightarrow>
        recs = \<lparr>nextSemesterCourses = [], availableElectives = [], missedCourses = [],
                futureRecommendations = []\<rparr> \<and>
        totalRequiredCourses report = 0) \<and>
   loadAndRecommend newAdvisor None = Failure ''Failed to load parsed data from JSON''"
proof -
  have a: "savedCurriculum emptySaved = None"
    by (simp add: emptySaved_def)
  from loadAndRecommend_empty_curriculum[of emptySaved newAdvisor] a
  show ?thesis by auto
qed

section \<open>Properties of the curriculum extractor\<close>


























end
